theory Spec2Isabelle
  imports Main
begin

section \<open>The deferred-call wrappers of callback.hpp\<close>

text \<open>
  The header declares an abstract base \<^verbatim>\<open>Callback\<close> with one virtual operation
  \<^verbatim>\<open>call()\<close>, six class templates deriving from it and six overloads of the factory
  \<^verbatim>\<open>MakeCallback\<close>. Everything the header does is decided either by the compiler
  (template argument deduction, overload resolution, instantiation of a class template and
  of the body of its virtual \<^verbatim>\<open>call\<close>) or at run time (the call itself, the
  reference counts of \<^verbatim>\<open>std::shared_ptr\<close>). Both are branches of the model: a
  program the compiler rejects is an error value, as is undefined behaviour.

  The model covers the calls of \<^verbatim>\<open>MakeCallback\<close> that leave the template arguments to
  deduction and the calls that name the pack \<^verbatim>\<open>Args\<close>, or a prefix of it, in an explicit
  template argument list, so that a parameter may be of reference type. Arguments are of
  copyable types, callables do not throw, and there is one class of receiver objects.
\<close>

subsection \<open>Errors\<close>

datatype error =
    NoMatchingOverload    \<comment> \<open>template argument deduction fails for every overload\<close>
  | AmbiguousOverload     \<comment> \<open>several viable overloads, none better than all others\<close>
  | IllFormed             \<comment> \<open>an instantiated constructor call or function body does not type-check\<close>
  | UndefinedBehaviour    \<comment> \<open>a member function called through a null or dangling pointer\<close>

subsection \<open>Values, parameter types and the program state\<close>

text \<open>
  Argument values \<open>'v\<close> and their static types \<open>'t\<close> are left open. A parameter of a
  function type is of object type \<^verbatim>\<open>T\<close>, taken by value, or of reference type
  \<^verbatim>\<open>T&\<close>, bound to a variable of the caller.
\<close>

datatype 't param = ByValue 't | ByRef 't

type_synonym addr = nat
type_synonym name = string

text \<open>
  An object managed by \<^verbatim>\<open>std::shared_ptr\<close> lives in the heap together with the
  use count of its control block. The state holds the named variables of the program (the
  caller's variables and the globals) and the heap.
\<close>

record 'o cell =
  object :: 'o
  use_count :: nat

record ('v, 'o) world =
  vars :: "name \<Rightarrow> 'v"
  heap :: "addr \<Rightarrow> 'o cell option"

text \<open>
  A pointer to a free function \<^verbatim>\<open>Ret(*)(Args...)\<close> and a pointer to a member function
  \<^verbatim>\<open>Ret(Class::*)(Args...)\<close>, the latter possibly \<^verbatim>\<open>const\<close>-qualified: the
  parameter types and what the function does to the state. The return value is discarded
  by every \<^verbatim>\<open>call\<close>, so it is not modelled. A member function receives the address of
  its receiver (\<^verbatim>\<open>this\<close>). The body is given what its parameters hold when it is
  entered: for a parameter of reference type, what the variable it is bound to holds then.
  It is not told which variable that is, so a body that assigns through a reference
  parameter is outside the model.
\<close>

record ('t, 'v, 'o) function_ptr =
  fn_params :: "'t param list"
  fn_body :: "'v list \<Rightarrow> ('v, 'o) world \<Rightarrow> ('v, 'o) world"

record ('t, 'v, 'o) member_ptr =
  mf_const :: bool
  mf_params :: "'t param list"
  mf_body :: "addr \<Rightarrow> 'v list \<Rightarrow> ('v, 'o) world \<Rightarrow> ('v, 'o) world"

text \<open>
  A trailing argument of a call that leaves \<^verbatim>\<open>Args\<close> to deduction is a value with its
  static type. Deduction from the by-value function parameters \<^verbatim>\<open>Args... args\<close> gives
  object types only, so a callable with a parameter of reference type matches no such call;
  it is reached with explicit template arguments, modelled further down.
\<close>

definition arg_types :: "('t \<times> 'v) list \<Rightarrow> 't param list" where
  "arg_types args = map (\<lambda>a. ByValue (fst a)) args"

definition arg_values :: "('t \<times> 'v) list \<Rightarrow> 'v list" where
  "arg_values args = map snd args"

text \<open>
  An element of a \<^verbatim>\<open>std::tuple<Args...>\<close>, and a function parameter of a type of
  \<^verbatim>\<open>Args\<close>: for an object type \<^verbatim>\<open>T\<close> a copy of a value, for a reference type
  \<^verbatim>\<open>T&\<close> a reference to a variable. Reading an element gives the copy, or what the
  variable holds in the state in which it is read.
\<close>

datatype ('t, 'v) element = Copy 't 'v | Reference 't name

fun element_type :: "('t, 'v) element \<Rightarrow> 't param" where
  "element_type (Copy t v) = ByValue t"
| "element_type (Reference t x) = ByRef t"

fun element_value :: "('v, 'o) world \<Rightarrow> ('t, 'v) element \<Rightarrow> 'v" where
  "element_value w (Copy t v) = v"
| "element_value w (Reference t x) = vars w x"

definition tuple_types :: "('t, 'v) element list \<Rightarrow> 't param list" where
  "tuple_types elems = map element_type elems"

definition tuple_values :: "('v, 'o) world \<Rightarrow> ('t, 'v) element list \<Rightarrow> 'v list" where
  "tuple_values w elems = map (element_value w) elems"

text \<open>The by-value parameters of a call with deduced \<^verbatim>\<open>Args\<close> hold copies.\<close>

definition copies :: "('t \<times> 'v) list \<Rightarrow> ('t, 'v) element list" where
  "copies args = map (\<lambda>a. Copy (fst a) (snd a)) args"

subsection \<open>The call expressions of C++ that the header uses\<close>

text \<open>
  \<^verbatim>\<open>f(a1, ..., an)\<close> through a function pointer (or the \<^verbatim>\<open>std::function\<close> that wraps
  it), the arguments being elements of a tuple: well-formed when the element types are the
  parameter types; the arguments are passed in their order. Implicit conversions are not
  modelled: in every call the header makes, arguments and parameters have the types of one
  pack \<^verbatim>\<open>Args\<close>.
\<close>

definition function_call ::
  "('t, 'v, 'o) function_ptr \<Rightarrow> ('t, 'v) element list \<Rightarrow> ('v, 'o) world
     \<Rightarrow> error + ('v, 'o) world" where
  "function_call f args w =
     (if fn_params f = tuple_types args then Inr (fn_body f (tuple_values w args) w)
      else Inl IllFormed)"

text \<open>
  \<^verbatim>\<open>(p->*fn)(a1, ..., an)\<close> and \<^verbatim>\<open>((*p).*fn)(a1, ..., an)\<close> for an object pointer
  \<open>p\<close>: undefined when \<open>p\<close> is null or its object is gone.
\<close>

definition member_call ::
  "('t, 'v, 'o) member_ptr \<Rightarrow> addr option \<Rightarrow> ('t, 'v) element list \<Rightarrow> ('v, 'o) world
     \<Rightarrow> error + ('v, 'o) world" where
  "member_call fn p args w =
     (if mf_params fn \<noteq> tuple_types args then Inl IllFormed
      else case p of
        None \<Rightarrow> Inl UndefinedBehaviour
      | Some a \<Rightarrow>
          (case heap w a of
             None \<Rightarrow> Inl UndefinedBehaviour
           | Some c \<Rightarrow> Inr (mf_body fn a (tuple_values w args) w)))"

text \<open>
  The first bound argument of \<^verbatim>\<open>std::bind(m_fn, x, _1)\<close> is stored with its own type:
  \<^verbatim>\<open>m_obj.get()\<close> is an object pointer \<^verbatim>\<open>Class*\<close>, the literal \<^verbatim>\<open>nullptr\<close> is
  a \<^verbatim>\<open>std::nullptr_t\<close>. \<^verbatim>\<open>INVOKE(fn, x, a...)\<close> for a pointer to member function and
  an \<open>x\<close> that is neither the class nor a \<^verbatim>\<open>reference_wrapper\<close> is
  \<^verbatim>\<open>((*x).*fn)(a...)\<close>, and \<^verbatim>\<open>std::nullptr_t\<close> has no unary \<^verbatim>\<open>*\<close>.
\<close>

datatype receiver = ObjectPtr "addr option" | NullptrLiteral

definition INVOKE_member ::
  "('t, 'v, 'o) member_ptr \<Rightarrow> receiver \<Rightarrow> ('t, 'v) element list \<Rightarrow> ('v, 'o) world
     \<Rightarrow> error + ('v, 'o) world" where
  "INVOKE_member fn x args w =
     (case x of
        NullptrLiteral \<Rightarrow> Inl IllFormed
      | ObjectPtr p \<Rightarrow> member_call fn p args w)"

text \<open>
  The call wrapper \<^verbatim>\<open>std::bind(m_fn, x, std::placeholders::_1)\<close> applied to the
  arguments \<open>us\<close>: the placeholder \<^verbatim>\<open>_1\<close> stands for the first of them, which must
  exist; the others are dropped. \<^verbatim>\<open>std::apply(g, t)\<close> calls \<open>g\<close> with the elements of
  the tuple \<open>t\<close> in their order, so it is the application of \<open>g\<close> to the list.
\<close>

definition std_bind_1 ::
  "('t, 'v, 'o) member_ptr \<Rightarrow> receiver \<Rightarrow> ('t, 'v) element list \<Rightarrow> ('v, 'o) world
     \<Rightarrow> error + ('v, 'o) world" where
  "std_bind_1 fn x us w =
     (case us of
        [] \<Rightarrow> Inl IllFormed
      | u # _ \<Rightarrow> INVOKE_member fn x [u] w)"

subsection \<open>The six wrapper classes\<close>

text \<open>The fields of each class, in the order of its constructor's parameters.\<close>

datatype ('t, 'v, 'o) Callback =
    FunctionCallback "('t, 'v, 'o) function_ptr" "('t, 'v) element list"
  | FunctionCallbackN "('t, 'v, 'o) function_ptr"
  | MemberCallback "addr option" "('t, 'v, 'o) member_ptr" "('t, 'v) element list"
  | MemberCallbackN "addr option" "('t, 'v, 'o) member_ptr"
  | ConstMemberCallback "('t, 'v, 'o) member_ptr" "('t, 'v) element list"
  | ConstMemberCallbackN "('t, 'v, 'o) member_ptr"

text \<open>
  \<^verbatim>\<open>call()\<close> is a non-const member function: it returns the wrapper as it leaves it,
  and the new state. No body assigns to a field. The bodies, in the order of the source:
  \<^verbatim>\<open>std::apply(m_fn, m_args)\<close>; \<^verbatim>\<open>m_fn()\<close>;
  \<^verbatim>\<open>std::apply(std::bind(m_fn, m_obj.get(), std::placeholders::_1), m_args)\<close>;
  \<^verbatim>\<open>((*m_obj).*m_fn)()\<close>;
  \<^verbatim>\<open>std::apply(std::bind(m_fn, nullptr, std::placeholders::_1), m_args)\<close>; and
  \<^verbatim>\<open>m_fn()\<close> again, where \<^verbatim>\<open>m_fn\<close> is a pointer to member function, which cannot
  be called without an object.
\<close>

definition with_this :: "'c \<Rightarrow> error + 'w \<Rightarrow> error + ('c \<times> 'w)" where
  "with_this cb r = (case r of Inl e \<Rightarrow> Inl e | Inr w \<Rightarrow> Inr (cb, w))"

fun call ::
  "('t, 'v, 'o) Callback \<Rightarrow> ('v, 'o) world \<Rightarrow> error + (('t, 'v, 'o) Callback \<times> ('v, 'o) world)" where
  "call (FunctionCallback m_fn m_args) w =
     with_this (FunctionCallback m_fn m_args) (function_call m_fn m_args w)"
| "call (FunctionCallbackN m_fn) w =
     with_this (FunctionCallbackN m_fn) (function_call m_fn [] w)"
| "call (MemberCallback m_obj m_fn m_args) w =
     with_this (MemberCallback m_obj m_fn m_args) (std_bind_1 m_fn (ObjectPtr m_obj) m_args w)"
| "call (MemberCallbackN m_obj m_fn) w =
     with_this (MemberCallbackN m_obj m_fn) (member_call m_fn m_obj [] w)"
| "call (ConstMemberCallback m_fn m_args) w =
     with_this (ConstMemberCallback m_fn m_args) (std_bind_1 m_fn NullptrLiteral m_args w)"
| "call (ConstMemberCallbackN m_fn) w =
     Inl IllFormed"

text \<open>
  Whether the body of \<^verbatim>\<open>call\<close> type-checks for an instantiation. It is virtual and not
  pure, so it is instantiated with its class.
\<close>

fun call_well_formed :: "('t, 'v, 'o) Callback \<Rightarrow> bool" where
  "call_well_formed (FunctionCallback m_fn m_args) = (fn_params m_fn = tuple_types m_args)"
| "call_well_formed (FunctionCallbackN m_fn) = (fn_params m_fn = [])"
| "call_well_formed (MemberCallback m_obj m_fn m_args) =
     (case m_args of [] \<Rightarrow> False | u # _ \<Rightarrow> mf_params m_fn = tuple_types [u])"
| "call_well_formed (MemberCallbackN m_obj m_fn) = (mf_params m_fn = [])"
| "call_well_formed (ConstMemberCallback m_fn m_args) = False"
| "call_well_formed (ConstMemberCallbackN m_fn) = False"

text \<open>
  The constructors. Each class fixes the type of its callable from its template arguments:
  \<^verbatim>\<open>std::function<Ret(Args...)>\<close>, \<^verbatim>\<open>Ret(Class::*)(Args...)\<close>, and for the two
  \<^verbatim>\<open>ConstMemberCallback\<close> classes \<^verbatim>\<open>Ret(Class::*)(Args...) const\<close>. A pointer to
  member function converts neither to nor from its const-qualified counterpart. The
  constructor parameters \<^verbatim>\<open>Args... args\<close> are forwarded into the tuple: a copy stays a
  copy, a reference stays a reference to the same variable.
\<close>

definition new_FunctionCallback ::
  "('t, 'v, 'o) function_ptr \<Rightarrow> ('t, 'v) element list \<Rightarrow> error + ('t, 'v, 'o) Callback" where
  "new_FunctionCallback fn args =
     (if fn_params fn = tuple_types args then Inr (FunctionCallback fn args) else Inl IllFormed)"

definition new_FunctionCallbackN ::
  "('t, 'v, 'o) function_ptr \<Rightarrow> error + ('t, 'v, 'o) Callback" where
  "new_FunctionCallbackN fn =
     (if fn_params fn = [] then Inr (FunctionCallbackN fn) else Inl IllFormed)"

definition new_MemberCallback ::
  "addr option \<Rightarrow> ('t, 'v, 'o) member_ptr \<Rightarrow> ('t, 'v) element list
     \<Rightarrow> error + ('t, 'v, 'o) Callback" where
  "new_MemberCallback obj fn args =
     (if \<not> mf_const fn \<and> mf_params fn = tuple_types args
      then Inr (MemberCallback obj fn args) else Inl IllFormed)"

definition new_MemberCallbackN ::
  "addr option \<Rightarrow> ('t, 'v, 'o) member_ptr \<Rightarrow> error + ('t, 'v, 'o) Callback" where
  "new_MemberCallbackN obj fn =
     (if \<not> mf_const fn \<and> mf_params fn = []
      then Inr (MemberCallbackN obj fn) else Inl IllFormed)"

definition new_ConstMemberCallback ::
  "('t, 'v, 'o) member_ptr \<Rightarrow> ('t, 'v) element list \<Rightarrow> error + ('t, 'v, 'o) Callback" where
  "new_ConstMemberCallback fn args =
     (if mf_const fn \<and> mf_params fn = tuple_types args
      then Inr (ConstMemberCallback fn args) else Inl IllFormed)"

definition new_ConstMemberCallbackN ::
  "('t, 'v, 'o) member_ptr \<Rightarrow> error + ('t, 'v, 'o) Callback" where
  "new_ConstMemberCallbackN fn =
     (if mf_const fn \<and> mf_params fn = []
      then Inr (ConstMemberCallbackN fn) else Inl IllFormed)"

text \<open>
  \<^verbatim>\<open>std::make_shared<T>(a...)\<close> instantiates \<open>T\<close>, with the body of its virtual
  \<^verbatim>\<open>call\<close>, and runs the constructor.
\<close>

definition make_shared :: "error + ('t, 'v, 'o) Callback \<Rightarrow> error + ('t, 'v, 'o) Callback" where
  "make_shared r =
     (case r of
        Inl e \<Rightarrow> Inl e
      | Inr cb \<Rightarrow> if call_well_formed cb then Inr cb else Inl IllFormed)"

subsection \<open>Shared ownership of the receiver\<close>

text \<open>
  Copying a \<^verbatim>\<open>std::shared_ptr\<close> increments the use count of its object, destroying one
  decrements it and deletes the object with the last owner. An empty pointer owns nothing.
\<close>

definition sp_copy :: "addr option \<Rightarrow> ('v, 'o) world \<Rightarrow> ('v, 'o) world" where
  "sp_copy p w =
     (case p of
        None \<Rightarrow> w
      | Some a \<Rightarrow>
          (case heap w a of
             None \<Rightarrow> w
           | Some c \<Rightarrow> w\<lparr>heap := (heap w)(a := Some (c\<lparr>use_count := use_count c + 1\<rparr>))\<rparr>))"

definition sp_release :: "addr option \<Rightarrow> ('v, 'o) world \<Rightarrow> ('v, 'o) world" where
  "sp_release p w =
     (case p of
        None \<Rightarrow> w
      | Some a \<Rightarrow>
          (case heap w a of
             None \<Rightarrow> w
           | Some c \<Rightarrow>
               if use_count c \<le> 1 then w\<lparr>heap := (heap w)(a := None)\<rparr>
               else w\<lparr>heap := (heap w)(a := Some (c\<lparr>use_count := use_count c - 1\<rparr>))\<rparr>))"

text \<open>
  What passing \<^verbatim>\<open>obj\<close> through a bound-method overload does to the use count: the
  caller's pointer is copied into the by-value parameter of \<^verbatim>\<open>MakeCallback\<close>, that into
  the by-value parameter of the constructor, that into the field \<^verbatim>\<open>m_obj\<close>; then the
  two parameters are destroyed.
\<close>

definition store_receiver :: "addr option \<Rightarrow> ('v, 'o) world \<Rightarrow> ('v, 'o) world" where
  "store_receiver obj w =
     sp_release obj (sp_release obj (sp_copy obj (sp_copy obj (sp_copy obj w))))"

subsection \<open>The implicitly declared copy assignment\<close>

text \<open>
  No class of the header declares an assignment operator, a copy or move constructor or a
  destructor, so each has the implicit public copy assignment, which assigns the fields in
  the order of their declaration. Assigning a \<^verbatim>\<open>std::tuple\<close> assigns element by element,
  in order: a copy is replaced by the value of the other element, a reference is assigned
  through, to the variable it refers to. Only wrappers of the same class can be assigned;
  the classes are told apart by the types of \<^verbatim>\<open>Args\<close> (the return type is not
  modelled).
\<close>

fun assign_tuple ::
  "('t, 'v) element list \<Rightarrow> ('t, 'v) element list \<Rightarrow> ('v, 'o) world
     \<Rightarrow> ('t, 'v) element list \<times> ('v, 'o) world" where
  "assign_tuple (Copy t v # as) (b # bs) w =
     (case assign_tuple as bs w of
        (as', w') \<Rightarrow> (Copy t (element_value w b) # as', w'))"
| "assign_tuple (Reference t x # as) (b # bs) w =
     (case assign_tuple as bs (w\<lparr>vars := (vars w)(x := element_value w b)\<rparr>) of
        (as', w') \<Rightarrow> (Reference t x # as', w'))"
| "assign_tuple as bs w = (as, w)"

text \<open>
  Assigning a \<^verbatim>\<open>std::shared_ptr\<close> takes a share in the new object and gives up the share
  in the old one.
\<close>

definition sp_assign :: "addr option \<Rightarrow> addr option \<Rightarrow> ('v, 'o) world \<Rightarrow> ('v, 'o) world" where
  "sp_assign old new w = sp_release old (sp_copy new w)"

fun copy_assign ::
  "('t, 'v, 'o) Callback \<Rightarrow> ('t, 'v, 'o) Callback \<Rightarrow> ('v, 'o) world
     \<Rightarrow> error + (('t, 'v, 'o) Callback \<times> ('v, 'o) world)" where
  "copy_assign (FunctionCallback m_fn m_args) (FunctionCallback fn' args') w =
     (if tuple_types m_args = tuple_types args'
      then case assign_tuple m_args args' w of (as, w') \<Rightarrow> Inr (FunctionCallback fn' as, w')
      else Inl IllFormed)"
| "copy_assign (FunctionCallbackN m_fn) (FunctionCallbackN fn') w =
     Inr (FunctionCallbackN fn', w)"
| "copy_assign (MemberCallback m_obj m_fn m_args) (MemberCallback obj' fn' args') w =
     (if tuple_types m_args = tuple_types args'
      then case assign_tuple m_args args' (sp_assign m_obj obj' w) of
             (as, w') \<Rightarrow> Inr (MemberCallback obj' fn' as, w')
      else Inl IllFormed)"
| "copy_assign (MemberCallbackN m_obj m_fn) (MemberCallbackN obj' fn') w =
     Inr (MemberCallbackN obj' fn', sp_assign m_obj obj' w)"
| "copy_assign (ConstMemberCallback m_fn m_args) (ConstMemberCallback fn' args') w =
     (if tuple_types m_args = tuple_types args'
      then case assign_tuple m_args args' w of (as, w') \<Rightarrow> Inr (ConstMemberCallback fn' as, w')
      else Inl IllFormed)"
| "copy_assign (ConstMemberCallbackN m_fn) (ConstMemberCallbackN fn') w =
     Inr (ConstMemberCallbackN fn', w)"
| "copy_assign cb other w = Inl IllFormed"

text \<open>The target of a wrapper: its callable, with the receiver where it has one.\<close>

fun target ::
  "('t, 'v, 'o) Callback
     \<Rightarrow> ('t, 'v, 'o) function_ptr + (addr option \<times> ('t, 'v, 'o) member_ptr)
          + ('t, 'v, 'o) member_ptr" where
  "target (FunctionCallback m_fn m_args) = Inl m_fn"
| "target (FunctionCallbackN m_fn) = Inl m_fn"
| "target (MemberCallback m_obj m_fn m_args) = Inr (Inl (m_obj, m_fn))"
| "target (MemberCallbackN m_obj m_fn) = Inr (Inl (m_obj, m_fn))"
| "target (ConstMemberCallback m_fn m_args) = Inr (Inr m_fn)"
| "target (ConstMemberCallbackN m_fn) = Inr (Inr m_fn)"

text \<open>The captured arguments of a wrapper; the nullary classes have none.\<close>

fun captured :: "('t, 'v, 'o) Callback \<Rightarrow> ('t, 'v) element list" where
  "captured (FunctionCallback m_fn m_args) = m_args"
| "captured (FunctionCallbackN m_fn) = []"
| "captured (MemberCallback m_obj m_fn m_args) = m_args"
| "captured (MemberCallbackN m_obj m_fn) = []"
| "captured (ConstMemberCallback m_fn m_args) = m_args"
| "captured (ConstMemberCallbackN m_fn) = []"

subsection \<open>The factory: six overloads of MakeCallback\<close>

text \<open>
  The three shapes of a call of \<^verbatim>\<open>MakeCallback\<close>, by the type of its leading arguments:
  a function pointer; a \<^verbatim>\<open>std::shared_ptr<Class>\<close> and a pointer to member function;
  a pointer to member function alone. The trailing arguments follow.
\<close>

datatype ('t, 'v, 'o) call_shape =
    FreeShape "('t, 'v, 'o) function_ptr" "('t \<times> 'v) list"
  | BoundShape "addr option" "('t, 'v, 'o) member_ptr" "('t \<times> 'v) list"
  | ReceiverlessShape "('t, 'v, 'o) member_ptr" "('t \<times> 'v) list"

text \<open>The overloads, in the order of the source.\<close>

datatype overload =
    Make_Function | Make_Member | Make_ConstMember
  | Make_FunctionN | Make_MemberN | Make_ConstMemberN

definition overloads :: "overload list" where
  "overloads =
     [Make_Function, Make_Member, Make_ConstMember, Make_FunctionN, Make_MemberN, Make_ConstMemberN]"

text \<open>
  An overload is viable when template argument deduction succeeds. \<^verbatim>\<open>Args\<close> is deduced
  twice, from the parameter list of the callable and from the trailing arguments, and the
  two results must be the same pack. Every overload that takes a pointer to member function
  takes an unqualified one, \<^verbatim>\<open>Ret(Class::*)(Args...)\<close>.
\<close>

fun viable :: "overload \<Rightarrow> ('t, 'v, 'o) call_shape \<Rightarrow> bool" where
  "viable Make_Function (FreeShape fn args) = (fn_params fn = arg_types args)"
| "viable Make_FunctionN (FreeShape fn args) = (fn_params fn = [] \<and> args = [])"
| "viable Make_Member (BoundShape obj fn args) =
     (\<not> mf_const fn \<and> mf_params fn = arg_types args)"
| "viable Make_MemberN (BoundShape obj fn args) =
     (\<not> mf_const fn \<and> mf_params fn = [] \<and> args = [])"
| "viable Make_ConstMember (ReceiverlessShape fn args) =
     (\<not> mf_const fn \<and> mf_params fn = arg_types args)"
| "viable Make_ConstMemberN (ReceiverlessShape fn args) =
     (\<not> mf_const fn \<and> mf_params fn = [] \<and> args = [])"
| "viable _ _ = False"

text \<open>
  Partial ordering of function templates: an overload without the trailing parameter pack
  is more specialized than its variadic counterpart.
\<close>

fun more_specialized :: "overload \<Rightarrow> overload \<Rightarrow> bool" where
  "more_specialized Make_FunctionN Make_Function = True"
| "more_specialized Make_MemberN Make_Member = True"
| "more_specialized Make_ConstMemberN Make_ConstMember = True"
| "more_specialized _ _ = False"

text \<open>
  The best viable overloads: those better than every other viable one. All conversions are
  identities here, so better means more specialized.
\<close>

definition rivals :: "overload \<Rightarrow> ('t, 'v, 'o) call_shape \<Rightarrow> overload list" where
  "rivals ov s =
     filter (\<lambda>ov'. viable ov' s \<and> ov' \<noteq> ov \<and> \<not> more_specialized ov ov') overloads"

definition best_viable :: "('t, 'v, 'o) call_shape \<Rightarrow> overload list" where
  "best_viable s = filter (\<lambda>ov. viable ov s \<and> rivals ov s = []) overloads"

definition resolve :: "('t, 'v, 'o) call_shape \<Rightarrow> error + overload" where
  "resolve s =
     (if filter (\<lambda>ov. viable ov s) overloads = [] then Inl NoMatchingOverload
      else case best_viable s of
        [ov] \<Rightarrow> Inr ov
      | _ \<Rightarrow> Inl AmbiguousOverload)"

text \<open>The bodies of the overloads: each forwards its arguments to \<^verbatim>\<open>std::make_shared\<close>.\<close>

definition constructed ::
  "error + ('t, 'v, 'o) Callback \<Rightarrow> ('v, 'o) world
     \<Rightarrow> error + (('t, 'v, 'o) Callback \<times> ('v, 'o) world)" where
  "constructed r w = (case r of Inl e \<Rightarrow> Inl e | Inr cb \<Rightarrow> Inr (cb, w))"

fun overload_body ::
  "overload \<Rightarrow> ('t, 'v, 'o) call_shape \<Rightarrow> ('v, 'o) world
     \<Rightarrow> error + (('t, 'v, 'o) Callback \<times> ('v, 'o) world)" where
  "overload_body Make_Function (FreeShape fn args) w =
     constructed (make_shared (new_FunctionCallback fn (copies args))) w"
| "overload_body Make_Member (BoundShape obj fn args) w =
     constructed (make_shared (new_MemberCallback obj fn (copies args))) (store_receiver obj w)"
| "overload_body Make_ConstMember (ReceiverlessShape fn args) w =
     constructed (make_shared (new_ConstMemberCallback fn (copies args))) w"
| "overload_body Make_FunctionN (FreeShape fn args) w =
     constructed (make_shared (new_FunctionCallbackN fn)) w"
| "overload_body Make_MemberN (BoundShape obj fn args) w =
     constructed (make_shared (new_MemberCallbackN obj fn)) (store_receiver obj w)"
| "overload_body Make_ConstMemberN (ReceiverlessShape fn args) w =
     constructed (make_shared (new_ConstMemberCallbackN fn)) w"
| "overload_body _ _ w = Inl NoMatchingOverload"

definition MakeCallback ::
  "('t, 'v, 'o) call_shape \<Rightarrow> ('v, 'o) world
     \<Rightarrow> error + (('t, 'v, 'o) Callback \<times> ('v, 'o) world)" where
  "MakeCallback s w =
     (case resolve s of
        Inl e \<Rightarrow> Inl e
      | Inr ov \<Rightarrow> overload_body ov s w)"

subsection \<open>The factory called with explicit template arguments\<close>

text \<open>
  \<^verbatim>\<open>MakeCallback<Ret, E...>(fn, es...)\<close>, and with a leading \<^verbatim>\<open>Class\<close> for the two
  shapes that take a pointer to member function: the template argument list names the first
  types \<open>E\<close> of the pack \<^verbatim>\<open>Args\<close>, the rest of the pack is deduced from the remaining
  trailing arguments as before. An argument expression is a variable of the caller (an
  lvalue) or a value (a prvalue), with its type.
\<close>

datatype ('t, 'v) expr = Lvalue 't name | Prvalue 't 'v

fun expr_type :: "('t, 'v) expr \<Rightarrow> 't" where
  "expr_type (Lvalue t x) = t"
| "expr_type (Prvalue t v) = t"

fun expr_value :: "('v, 'o) world \<Rightarrow> ('t, 'v) expr \<Rightarrow> 'v" where
  "expr_value w (Lvalue t x) = vars w x"
| "expr_value w (Prvalue t v) = v"

text \<open>
  A parameter of object type is initialised from an expression of its type by copy; a
  parameter of type \<^verbatim>\<open>T&\<close> binds to an lvalue of type \<^verbatim>\<open>T\<close> and to nothing else.
\<close>

fun bindable :: "'t param \<Rightarrow> ('t, 'v) expr \<Rightarrow> bool" where
  "bindable (ByValue t) e = (expr_type e = t)"
| "bindable (ByRef t) (Lvalue t' x) = (t' = t)"
| "bindable (ByRef t) (Prvalue t' v) = False"

fun bound_element :: "('v, 'o) world \<Rightarrow> 't param \<Rightarrow> ('t, 'v) expr \<Rightarrow> ('t, 'v) element" where
  "bound_element w (ByRef t) (Lvalue t' x) = Reference t x"
| "bound_element w p e = Copy (expr_type e) (expr_value w e)"

text \<open>
  The pack \<^verbatim>\<open>Args\<close> of a call: the explicit types, then for the arguments beyond them
  the deduced object types. Whether the arguments can be passed to the explicit types, and
  what the function parameters \<^verbatim>\<open>Args... args\<close> then hold.
\<close>

fun pack :: "'t param list \<Rightarrow> ('t, 'v) expr list \<Rightarrow> 't param list" where
  "pack (p # ps) (e # es) = p # pack ps es"
| "pack [] (e # es) = ByValue (expr_type e) # pack [] es"
| "pack ps [] = ps"

fun bindable_all :: "'t param list \<Rightarrow> ('t, 'v) expr list \<Rightarrow> bool" where
  "bindable_all (p # ps) (e # es) = (bindable p e \<and> bindable_all ps es)"
| "bindable_all [] es = True"
| "bindable_all (p # ps) [] = False"

fun bound_elements ::
  "('v, 'o) world \<Rightarrow> 't param list \<Rightarrow> ('t, 'v) expr list \<Rightarrow> ('t, 'v) element list" where
  "bound_elements w (p # ps) (e # es) = bound_element w p e # bound_elements w ps es"
| "bound_elements w [] (e # es) = Copy (expr_type e) (expr_value w e) # bound_elements w [] es"
| "bound_elements w ps [] = []"

datatype ('t, 'v, 'o) explicit_call =
    ExplicitFree "'t param list" "('t, 'v, 'o) function_ptr" "('t, 'v) expr list"
  | ExplicitBound "'t param list" "addr option" "('t, 'v, 'o) member_ptr" "('t, 'v) expr list"
  | ExplicitReceiverless "'t param list" "('t, 'v, 'o) member_ptr" "('t, 'v) expr list"

text \<open>
  A variadic overload is viable when the parameter list of the callable is the pack and the
  arguments can be passed to the explicit types. A nullary overload has no pack, so it
  takes no explicit type for one.
\<close>

fun viable_explicit :: "overload \<Rightarrow> ('t, 'v, 'o) explicit_call \<Rightarrow> bool" where
  "viable_explicit Make_Function (ExplicitFree E fn es) =
     (fn_params fn = pack E es \<and> bindable_all E es)"
| "viable_explicit Make_FunctionN (ExplicitFree E fn es) =
     (E = [] \<and> fn_params fn = [] \<and> es = [])"
| "viable_explicit Make_Member (ExplicitBound E obj fn es) =
     (\<not> mf_const fn \<and> mf_params fn = pack E es \<and> bindable_all E es)"
| "viable_explicit Make_MemberN (ExplicitBound E obj fn es) =
     (E = [] \<and> \<not> mf_const fn \<and> mf_params fn = [] \<and> es = [])"
| "viable_explicit Make_ConstMember (ExplicitReceiverless E fn es) =
     (\<not> mf_const fn \<and> mf_params fn = pack E es \<and> bindable_all E es)"
| "viable_explicit Make_ConstMemberN (ExplicitReceiverless E fn es) =
     (E = [] \<and> \<not> mf_const fn \<and> mf_params fn = [] \<and> es = [])"
| "viable_explicit _ _ = False"

text \<open>Overload resolution over any viability predicate, as in \<^const>\<open>resolve\<close>.\<close>

definition select :: "(overload \<Rightarrow> bool) \<Rightarrow> error + overload" where
  "select ok =
     (if filter ok overloads = [] then Inl NoMatchingOverload
      else case filter
                  (\<lambda>ov. ok ov \<and>
                     filter (\<lambda>ov'. ok ov' \<and> ov' \<noteq> ov \<and> \<not> more_specialized ov ov') overloads = [])
                  overloads of
        [ov] \<Rightarrow> Inr ov
      | _ \<Rightarrow> Inl AmbiguousOverload)"

definition resolve_explicit :: "('t, 'v, 'o) explicit_call \<Rightarrow> error + overload" where
  "resolve_explicit c = select (\<lambda>ov. viable_explicit ov c)"

fun explicit_body ::
  "overload \<Rightarrow> ('t, 'v, 'o) explicit_call \<Rightarrow> ('v, 'o) world
     \<Rightarrow> error + (('t, 'v, 'o) Callback \<times> ('v, 'o) world)" where
  "explicit_body Make_Function (ExplicitFree E fn es) w =
     constructed (make_shared (new_FunctionCallback fn (bound_elements w E es))) w"
| "explicit_body Make_Member (ExplicitBound E obj fn es) w =
     constructed (make_shared (new_MemberCallback obj fn (bound_elements w E es)))
       (store_receiver obj w)"
| "explicit_body Make_ConstMember (ExplicitReceiverless E fn es) w =
     constructed (make_shared (new_ConstMemberCallback fn (bound_elements w E es))) w"
| "explicit_body Make_FunctionN (ExplicitFree E fn es) w =
     constructed (make_shared (new_FunctionCallbackN fn)) w"
| "explicit_body Make_MemberN (ExplicitBound E obj fn es) w =
     constructed (make_shared (new_MemberCallbackN obj fn)) (store_receiver obj w)"
| "explicit_body Make_ConstMemberN (ExplicitReceiverless E fn es) w =
     constructed (make_shared (new_ConstMemberCallbackN fn)) w"
| "explicit_body _ _ w = Inl NoMatchingOverload"

definition MakeCallback_explicit ::
  "('t, 'v, 'o) explicit_call \<Rightarrow> ('v, 'o) world
     \<Rightarrow> error + (('t, 'v, 'o) Callback \<times> ('v, 'o) world)" where
  "MakeCallback_explicit c w =
     (case resolve_explicit c of
        Inl e \<Rightarrow> Inl e
      | Inr ov \<Rightarrow> explicit_body ov c w)"

subsection \<open>Calling the callable directly\<close>

text \<open>
  What the wrappers are compared with: the call expression a caller would write for the
  same callable and arguments, \<^verbatim>\<open>f(a...)\<close>, \<^verbatim>\<open>(o.get()->*m)(a...)\<close>, and a member
  call through a null object pointer.
\<close>

fun direct_call ::
  "('t, 'v, 'o) call_shape \<Rightarrow> ('v, 'o) world \<Rightarrow> error + ('v, 'o) world" where
  "direct_call (FreeShape fn args) w = function_call fn (copies args) w"
| "direct_call (BoundShape obj fn args) w = member_call fn obj (copies args) w"
| "direct_call (ReceiverlessShape fn args) w = member_call fn None (copies args) w"





text \<open>The overload whose body constructs a wrapper of a given class.\<close>

fun variant :: "('t, 'v, 'o) Callback \<Rightarrow> overload" where
  "variant (FunctionCallback m_fn m_args) = Make_Function"
| "variant (FunctionCallbackN m_fn) = Make_FunctionN"
| "variant (MemberCallback m_obj m_fn m_args) = Make_Member"
| "variant (MemberCallbackN m_obj m_fn) = Make_MemberN"
| "variant (ConstMemberCallback m_fn m_args) = Make_ConstMember"
| "variant (ConstMemberCallbackN m_fn) = Make_ConstMemberN"

text \<open>
  The caller's side of argument passing: the trailing arguments are variables of the caller,
  copied into the by-value parameters when \<^verbatim>\<open>MakeCallback\<close> is called; later the caller
  assigns to a variable.
\<close>

definition pass_by_value :: "('t \<times> name) list \<Rightarrow> ('v, 'o) world \<Rightarrow> ('t \<times> 'v) list" where
  "pass_by_value xs w = map (\<lambda>x. (fst x, vars w (snd x))) xs"

definition assign :: "name \<Rightarrow> 'v \<Rightarrow> ('v, 'o) world \<Rightarrow> ('v, 'o) world" where
  "assign x v w = w\<lparr>vars := (vars w)(x := v)\<rparr>"

text \<open>
  What snapshot and reference mean for a call with explicit types \<open>E\<close> and arguments
  \<open>es\<close>, made in the state \<open>w0\<close>, whose handle is invoked in the state \<open>w\<close>: an
  argument passed to a reference type is read in \<open>w\<close>, every other argument has the
  value it had in \<open>w0\<close>.
\<close>

fun passed ::
  "'t param list \<Rightarrow> ('t, 'v) expr list \<Rightarrow> ('v, 'o) world \<Rightarrow> ('v, 'o) world \<Rightarrow> 'v list" where
  "passed (ByRef t # ps) (Lvalue t' x # es) w0 w = vars w x # passed ps es w0 w"
| "passed (p # ps) (e # es) w0 w = expr_value w0 e # passed ps es w0 w"
| "passed [] (e # es) w0 w = expr_value w0 e # passed [] es w0 w"
| "passed ps [] w0 w = []"

fun by_value :: "'t param \<Rightarrow> bool" where
  "by_value (ByValue t) = True"
| "by_value (ByRef t) = False"

subsection \<open>A small program: free functions and a counter\<close>

text \<open>
  \<^verbatim>\<open>void add(int a, int b)\<close> stores \<open>a + b\<close> in the global \<^verbatim>\<open>sum\<close>,
  \<^verbatim>\<open>void multiply(int a, int b)\<close> stores \<open>a * b\<close> there, and
  \<^verbatim>\<open>void show_ref(int& r)\<close> stores what \<open>r\<close> refers to. A counter object
  holds an integer; \<^verbatim>\<open>increment()\<close> adds one to it, \<^verbatim>\<open>add_to(int)\<close> adds its argument,
  \<^verbatim>\<open>add_both(int, int)\<close> adds both of its arguments, \<^verbatim>\<open>peek(int) const\<close> changes
  nothing and \<^verbatim>\<open>read_out() const\<close> stores the count in the global \<^verbatim>\<open>seen\<close>.
\<close>

definition add :: "(string, int, int) function_ptr" where
  "add = \<lparr>fn_params = [ByValue ''int'', ByValue ''int''],
          fn_body = (\<lambda>vs w. case vs of [a, b] \<Rightarrow> w\<lparr>vars := (vars w)(''sum'' := a + b)\<rparr> | _ \<Rightarrow> w)\<rparr>"

definition multiply :: "(string, int, int) function_ptr" where
  "multiply = \<lparr>fn_params = [ByValue ''int'', ByValue ''int''],
               fn_body = (\<lambda>vs w. case vs of [a, b] \<Rightarrow> w\<lparr>vars := (vars w)(''sum'' := a * b)\<rparr>
                                   | _ \<Rightarrow> w)\<rparr>"

definition show_ref :: "(string, int, int) function_ptr" where
  "show_ref = \<lparr>fn_params = [ByRef ''int''],
               fn_body = (\<lambda>vs w. case vs of [r] \<Rightarrow> w\<lparr>vars := (vars w)(''sum'' := r)\<rparr> | _ \<Rightarrow> w)\<rparr>"

definition bump :: "int \<Rightarrow> addr \<Rightarrow> (int, int) world \<Rightarrow> (int, int) world" where
  "bump d this w =
     (case heap w this of
        None \<Rightarrow> w
      | Some c \<Rightarrow> w\<lparr>heap := (heap w)(this := Some (c\<lparr>object := object c + d\<rparr>))\<rparr>)"

definition increment :: "(string, int, int) member_ptr" where
  "increment = \<lparr>mf_const = False, mf_params = [], mf_body = (\<lambda>this vs w. bump 1 this w)\<rparr>"

definition add_to :: "(string, int, int) member_ptr" where
  "add_to = \<lparr>mf_const = False, mf_params = [ByValue ''int''],
             mf_body = (\<lambda>this vs w. case vs of [d] \<Rightarrow> bump d this w | _ \<Rightarrow> w)\<rparr>"

definition add_both :: "(string, int, int) member_ptr" where
  "add_both = \<lparr>mf_const = False, mf_params = [ByValue ''int'', ByValue ''int''],
               mf_body = (\<lambda>this vs w. case vs of [d, e] \<Rightarrow> bump (d + e) this w | _ \<Rightarrow> w)\<rparr>"

definition peek :: "(string, int, int) member_ptr" where
  "peek = \<lparr>mf_const = True, mf_params = [ByValue ''int''], mf_body = (\<lambda>this vs w. w)\<rparr>"

definition read_out :: "(string, int, int) member_ptr" where
  "read_out = \<lparr>mf_const = True, mf_params = [],
               mf_body = (\<lambda>this vs w. case heap w this of
                            None \<Rightarrow> w
                          | Some c \<Rightarrow> w\<lparr>vars := (vars w)(''seen'' := object c)\<rparr>)\<rparr>"

text \<open>One counter at address 0, at zero, owned by one \<^verbatim>\<open>shared_ptr\<close> of the caller.\<close>

definition counter_world :: "(int, int) world" where
  "counter_world =
     \<lparr>vars = (\<lambda>x. 0), heap = (\<lambda>a. None)(0 := Some \<lparr>object = 0, use_count = 1\<rparr>)\<rparr>"

text \<open>The caller's variables \<^verbatim>\<open>a\<close> and \<^verbatim>\<open>b\<close> hold 2 and 3.\<close>

definition caller_world :: "(int, int) world" where
  "caller_world = counter_world\<lparr>vars := (\<lambda>x. 0)(''a'' := 2, ''b'' := 3)\<rparr>"

text \<open>Invoking a handle \<open>n\<close> times in a row, stopping at the first error.\<close>

fun call_n ::
  "nat \<Rightarrow> ('t, 'v, 'o) Callback \<Rightarrow> ('v, 'o) world
     \<Rightarrow> error + (('t, 'v, 'o) Callback \<times> ('v, 'o) world)" where
  "call_n 0 cb w = Inr (cb, w)"
| "call_n (Suc n) cb w =
     (case call cb w of
        Inl e \<Rightarrow> Inl e
      | Inr r \<Rightarrow> call_n n (fst r) (snd r))"

section \<open>Properties\<close>

subsection \<open>What the compiler decides\<close>

lemma arg_types_Nil_iff:
  "(arg_types args = []) = (args = [])" "([] = arg_types args) = (args = [])"
  by (auto simp: arg_types_def)

lemma arg_types_Nil: "arg_types [] = []"
  by (simp add: arg_types_def)

lemma tuple_types_copies: "tuple_types (copies args) = arg_types args"
  by (simp add: tuple_types_def copies_def arg_types_def)

lemma tuple_values_copies: "tuple_values w (copies args) = arg_values args"
  by (simp add: tuple_values_def copies_def arg_values_def)

lemma tuple_Nil: "tuple_types [] = []" "tuple_values w [] = []"
  by (simp_all add: tuple_types_def tuple_values_def)

lemma copies_Nil_iff: "(copies args = []) = (args = [])"
  by (simp add: copies_def)

lemma length_copies: "length (copies args) = length args"
  by (simp add: copies_def)

text \<open>\<^const>\<open>call\<close> is ill-formed exactly where the body does not type-check.\<close>

lemma call_IllFormed_iff: "(call cb w = Inl IllFormed) = (\<not> call_well_formed cb)"
  by (cases cb)
     (auto simp: with_this_def function_call_def member_call_def std_bind_1_def INVOKE_member_def
                 tuple_types_def
           split: sum.splits option.splits list.splits if_splits)

text \<open>Overload resolution, shape by shape.\<close>

lemma resolve_Free:
  "resolve (FreeShape fn args) =
     (if fn_params fn = arg_types args
      then Inr (if args = [] then Make_FunctionN else Make_Function)
      else Inl NoMatchingOverload)"
  by (auto simp: resolve_def best_viable_def rivals_def overloads_def arg_types_Nil_iff)

lemma resolve_Bound:
  "resolve (BoundShape obj fn args) =
     (if \<not> mf_const fn \<and> mf_params fn = arg_types args
      then Inr (if args = [] then Make_MemberN else Make_Member)
      else Inl NoMatchingOverload)"
  by (auto simp: resolve_def best_viable_def rivals_def overloads_def arg_types_Nil_iff)

lemma resolve_Receiverless:
  "resolve (ReceiverlessShape fn args) =
     (if \<not> mf_const fn \<and> mf_params fn = arg_types args
      then Inr (if args = [] then Make_ConstMemberN else Make_ConstMember)
      else Inl NoMatchingOverload)"
  by (auto simp: resolve_def best_viable_def rivals_def overloads_def arg_types_Nil_iff)

text \<open>What each shape of call constructs.\<close>

lemma MakeCallback_Free:
  "MakeCallback (FreeShape fn args) w =
     (if fn_params fn = arg_types args
      then Inr (if args = [] then FunctionCallbackN fn else FunctionCallback fn (copies args), w)
      else Inl NoMatchingOverload)"
  by (auto simp: MakeCallback_def resolve_Free constructed_def make_shared_def
                 new_FunctionCallback_def new_FunctionCallbackN_def arg_types_Nil_iff
                 tuple_types_copies)

lemma MakeCallback_Bound:
  "MakeCallback (BoundShape obj fn args) w =
     (if \<not> mf_const fn \<and> mf_params fn = arg_types args
      then (if args = [] then Inr (MemberCallbackN obj fn, store_receiver obj w)
            else if length args = 1
            then Inr (MemberCallback obj fn (copies args), store_receiver obj w)
            else Inl IllFormed)
      else Inl NoMatchingOverload)"
  by (cases args; cases "tl args")
     (auto simp: MakeCallback_def resolve_Bound constructed_def make_shared_def
                 new_MemberCallback_def new_MemberCallbackN_def arg_types_def copies_def
                 tuple_types_def)

lemma MakeCallback_Receiverless:
  "MakeCallback (ReceiverlessShape fn args) w =
     (if \<not> mf_const fn \<and> mf_params fn = arg_types args
      then Inl IllFormed
      else Inl NoMatchingOverload)"
  by (auto simp: MakeCallback_def resolve_Receiverless constructed_def make_shared_def
                 new_ConstMemberCallback_def new_ConstMemberCallbackN_def arg_types_Nil_iff
                 tuple_types_copies)



subsection \<open>Explicit template arguments\<close>

lemma element_type_bound_element:
  "bindable p e \<Longrightarrow> element_type (bound_element w p e) = p"
  by (cases p; cases e) auto

lemma tuple_types_deduced_elements:
  "tuple_types (bound_elements w [] es) = pack [] es"
  by (induction es) (simp_all add: tuple_types_def)

lemma tuple_types_bound_elements:
  "bindable_all E es \<Longrightarrow> tuple_types (bound_elements w E es) = pack E es"
proof (induction E es rule: bindable_all.induct)
  case (1 p ps e es)
  then show ?case
    by (simp add: tuple_types_def element_type_bound_element)
next
  case (2 es)
  show ?case
    by (rule tuple_types_deduced_elements)
next
  case (3 p ps)
  then show ?case by simp
qed

lemma length_bound_elements:
  "bindable_all E es \<Longrightarrow> length (bound_elements w E es) = length es"
  by (induction E es rule: bound_elements.induct) simp_all

text \<open>
  Reading the elements a factory call bound in \<open>w0\<close>, in a later state \<open>w\<close>: a reference
  is read late, everything else is the value of \<open>w0\<close>.
\<close>

lemma tuple_values_bound_elements:
  "tuple_values w (bound_elements w0 E es) = passed E es w0 w"
  by (induction E es w0 w rule: passed.induct) (simp_all add: tuple_values_def)

lemma passed_by_value:
  "list_all by_value (pack E es) \<Longrightarrow> passed E es w0 w = map (expr_value w0) es"
  by (induction E es w0 w rule: passed.induct) simp_all

text \<open>Resolution does for a call with explicit types what it does without them.\<close>

lemma resolve_select: "resolve s = select (\<lambda>ov. viable ov s)"
  by (simp add: resolve_def select_def best_viable_def rivals_def)

lemma resolve_explicit_Free:
  "resolve_explicit (ExplicitFree E fn es) =
     (if fn_params fn = pack E es \<and> bindable_all E es
      then Inr (if E = [] \<and> es = [] then Make_FunctionN else Make_Function)
      else Inl NoMatchingOverload)"
  by (auto simp: resolve_explicit_def select_def overloads_def)

lemma resolve_explicit_Bound:
  "resolve_explicit (ExplicitBound E obj fn es) =
     (if \<not> mf_const fn \<and> mf_params fn = pack E es \<and> bindable_all E es
      then Inr (if E = [] \<and> es = [] then Make_MemberN else Make_Member)
      else Inl NoMatchingOverload)"
  by (auto simp: resolve_explicit_def select_def overloads_def)


lemma MakeCallback_explicit_Free:
  "MakeCallback_explicit (ExplicitFree E fn es) w =
     (if fn_params fn = pack E es \<and> bindable_all E es
      then Inr (if E = [] \<and> es = [] then FunctionCallbackN fn
                else FunctionCallback fn (bound_elements w E es), w)
      else Inl NoMatchingOverload)"
  by (auto simp: MakeCallback_explicit_def resolve_explicit_Free constructed_def make_shared_def
                 new_FunctionCallback_def new_FunctionCallbackN_def tuple_types_bound_elements)

lemma MakeCallback_explicit_Bound:
  "MakeCallback_explicit (ExplicitBound E obj fn es) w =
     (if \<not> mf_const fn \<and> mf_params fn = pack E es \<and> bindable_all E es
      then (if E = [] \<and> es = [] then Inr (MemberCallbackN obj fn, store_receiver obj w)
            else if length es = 1
            then Inr (MemberCallback obj fn (bound_elements w E es), store_receiver obj w)
            else Inl IllFormed)
      else Inl NoMatchingOverload)"
proof (cases "\<not> mf_const fn \<and> mf_params fn = pack E es \<and> bindable_all E es")
  case False
  then show ?thesis
    by (auto simp: MakeCallback_explicit_def resolve_explicit_Bound)
next
  case True
  then have types: "tuple_types (bound_elements w E es) = mf_params fn"
    and len: "length (bound_elements w E es) = length es"
    by (simp_all add: tuple_types_bound_elements length_bound_elements)
  show ?thesis
  proof (cases "bound_elements w E es")
    case Nil
    with len types True show ?thesis
      by (cases E)
         (auto simp: MakeCallback_explicit_def resolve_explicit_Bound constructed_def
                     make_shared_def new_MemberCallback_def new_MemberCallbackN_def
                     tuple_types_def)
  next
    case (Cons u us)
    with len have ne: "es \<noteq> []" by auto
    from Cons len have one: "(length es = 1) = (us = [])" by auto
    from Cons types have "(mf_params fn = tuple_types [u]) = (us = [])"
      by (auto simp: tuple_types_def)
    with Cons True ne one types show ?thesis
      by (auto simp: MakeCallback_explicit_def resolve_explicit_Bound constructed_def
                     make_shared_def new_MemberCallback_def)
  qed
qed


text \<open>With no explicit type and values for arguments, the two factories agree.\<close>

lemma pack_values: "pack [] (map (\<lambda>a. Prvalue (fst a) (snd a)) args) = arg_types args"
  by (induction args) (simp_all add: arg_types_def)

lemma bound_elements_values:
  "bound_elements w [] (map (\<lambda>a. Prvalue (fst a) (snd a)) args) = copies args"
  by (induction args) (simp_all add: copies_def)

lemma MakeCallback_explicit_deduced:
  "MakeCallback_explicit (ExplicitFree [] fn (map (\<lambda>a. Prvalue (fst a) (snd a)) args)) w
     = MakeCallback (FreeShape fn args) w"
  "MakeCallback_explicit (ExplicitBound [] obj m (map (\<lambda>a. Prvalue (fst a) (snd a)) args)) w
     = MakeCallback (BoundShape obj m args) w"
  by (simp_all add: MakeCallback_explicit_Free MakeCallback_explicit_Bound MakeCallback_Free
                    MakeCallback_Bound pack_values bound_elements_values)

subsection \<open>Free functions\<close>

text \<open>
  C1. A handle made by the free-function overloads from a function \<open>fn\<close> and arguments
  \<open>args\<close> does, when invoked in any state \<open>w\<close>, what \<open>fn\<close> applied to the values of
  \<open>args\<close> in their order does to \<open>w\<close>, and nothing else. The handle exists whenever the
  types of the arguments are the parameter types of \<open>fn\<close>, and making it leaves the state
  as it was.
\<close>

theorem MakeCallback_function_invokes_directly:
  "(fn_params fn = arg_types args \<longrightarrow> (\<exists>h. MakeCallback (FreeShape fn args) w0 = Inr (h, w0)))
   \<and> (MakeCallback (FreeShape fn args) w0 = Inr (h, w1) \<longrightarrow>
        call h w = Inr (h, fn_body fn (arg_values args) w))"
  by (auto simp: MakeCallback_Free with_this_def function_call_def tuple_types_copies
                 tuple_values_copies tuple_Nil arg_types_Nil arg_values_def
           split: if_splits)

theorem MakeCallback_function_invokes_directly_witness:
  "MakeCallback (FreeShape add [(''int'', 2), (''int'', 3)]) counter_world
     = Inr (FunctionCallback add [Copy ''int'' 2, Copy ''int'' 3], counter_world)
   \<and> call (FunctionCallback add [Copy ''int'' 2, Copy ''int'' 3]) counter_world
     = Inr (FunctionCallback add [Copy ''int'' 2, Copy ''int'' 3], fn_body add [2, 3] counter_world)
   \<and> vars (fn_body add [2, 3] counter_world) ''sum'' = 5"
proof -
  let ?args = "[(''int'', 2), (''int'', 3)] :: (string \<times> int) list"
  let ?h = "FunctionCallback add [Copy ''int'' 2, Copy ''int'' 3]"
  have built: "MakeCallback (FreeShape add ?args) counter_world = Inr (?h, counter_world)"
    by (simp add: MakeCallback_Free add_def arg_types_def copies_def)
  have "call ?h counter_world = Inr (?h, fn_body add (arg_values ?args) counter_world)"
    using MakeCallback_function_invokes_directly
            [of add ?args counter_world ?h counter_world counter_world]
          built by simp
  moreover have "vars (fn_body add [2, 3] counter_world) ''sum'' = 5"
    by (simp add: add_def)
  ultimately show ?thesis using built by (simp add: arg_values_def)
qed

subsection \<open>Bound methods\<close>

text \<open>
  Where a bound-method handle exists, invoking it is the member call on the receiver given
  at construction, with the captured arguments.
\<close>

lemma bound_handle_invokes_member:
  "MakeCallback (BoundShape obj fn args) w0 = Inr (h, w1) \<Longrightarrow>
   call h w = with_this h (member_call fn obj (copies args) w)"
  by (auto simp: MakeCallback_Bound std_bind_1_def INVOKE_member_def length_Suc_conv copies_def
           split: if_splits)

text \<open>A bound-method handle exists for methods of no or one parameter only.\<close>

lemma bound_handle_exists_iff:
  "(\<exists>h w1. MakeCallback (BoundShape obj fn args) w0 = Inr (h, w1)) =
   (\<not> mf_const fn \<and> mf_params fn = arg_types args \<and> length args \<le> 1)"
  by (cases args; cases "tl args") (auto simp: MakeCallback_Bound)

text \<open>
  C2. The claim asks that a handle made from a receiver, a method and any tuple of arguments
  does what the direct member call does. For a method of two parameters the direct call
  \<^verbatim>\<open>counter->add_both(2, 3)\<close> adds five to the counter, but
  \<^verbatim>\<open>MakeCallback(counter, &Counter::add_both, 2, 3)\<close> is rejected: the body of
  \<^verbatim>\<open>MemberCallback::call\<close> binds the placeholder \<^verbatim>\<open>_1\<close> alone, so the method
  receives one argument where it has two parameters.
\<close>

theorem MakeCallback_member_two_arguments_rejected:
  "MakeCallback (BoundShape (Some 0) add_both [(''int'', 2), (''int'', 3)]) counter_world
     = Inl IllFormed
   \<and> direct_call (BoundShape (Some 0) add_both [(''int'', 2), (''int'', 3)]) counter_world
     = Inr (bump 5 0 counter_world)
   \<and> heap (bump 5 0 counter_world) 0 = Some \<lparr>object = 5, use_count = 1\<rparr>"
  by (simp add: MakeCallback_Bound add_both_def arg_types_def copies_def tuple_types_def
                tuple_values_def member_call_def counter_world_def bump_def)

text \<open>
  The scenario of the counter: a handle made from the counter and \<^verbatim>\<open>increment\<close>,
  invoked \<open>n\<close> times, has added \<open>n\<close> to the count.
\<close>

lemma bump_live:
  "heap w a = Some c \<Longrightarrow> heap (bump d a w) a = Some (c\<lparr>object := object c + d\<rparr>)"
  by (simp add: bump_def)

lemma call_increment:
  "heap w a = Some c \<Longrightarrow>
   call (MemberCallbackN (Some a) increment) w
     = Inr (MemberCallbackN (Some a) increment, bump 1 a w)"
  by (simp add: with_this_def member_call_def increment_def tuple_types_def)

lemma increment_n_times:
  "heap w a = Some c \<Longrightarrow>
   \<exists>w'. call_n n (MemberCallbackN (Some a) increment) w
           = Inr (MemberCallbackN (Some a) increment, w')
       \<and> heap w' a = Some (c\<lparr>object := object c + int n\<rparr>)"
proof (induction n arbitrary: w c)
  case 0
  then show ?case by simp
next
  case (Suc n)
  let ?c = "c\<lparr>object := object c + 1\<rparr>"
  from Suc.prems have "heap (bump 1 a w) a = Some ?c"
    by (rule bump_live)
  from Suc.IH [OF this] obtain w' where
    "call_n n (MemberCallbackN (Some a) increment) (bump 1 a w)
       = Inr (MemberCallbackN (Some a) increment, w')"
    and "heap w' a = Some (?c\<lparr>object := object ?c + int n\<rparr>)"
    by blast
  with Suc.prems show ?case
    by (simp add: call_increment add.assoc del: call.simps)
qed

lemma counter_incremented_by_invocations:
  assumes "heap w a = Some c"
    and "MakeCallback (BoundShape (Some a) increment []) w = Inr (h, w1)"
  shows "\<exists>w' c'. call_n n h w1 = Inr (h, w') \<and> heap w' a = Some c'
           \<and> object c' = object c + int n"
proof -
  from assms(2) have h: "h = MemberCallbackN (Some a) increment"
    and w1: "w1 = store_receiver (Some a) w"
    by (auto simp: MakeCallback_Bound split: if_splits)
  from assms(1) have "heap w1 a = Some (c\<lparr>use_count := use_count c + 1\<rparr>)"
    by (simp add: w1 store_receiver_def sp_copy_def sp_release_def)
  from increment_n_times [OF this, of n] h show ?thesis by auto
qed

subsection \<open>Overload resolution\<close>









subsection \<open>Captured arguments\<close>



text \<open>
  C5, as the claim states it, fails. The call of the first overload that names the
  reference type \<^verbatim>\<open>int&\<close> in its template argument list, with the function
  \<^verbatim>\<open>show_ref\<close> and the caller's variable \<^verbatim>\<open>a\<close>, makes a handle whose tuple holds a
  reference to \<^verbatim>\<open>a\<close>. The variable holds 2 when the handle is made; the caller then
  assigns 100 to it, and the handle, invoked, passes 100.
\<close>

theorem explicit_reference_argument_is_read_late:
  "MakeCallback_explicit (ExplicitFree [ByRef ''int''] show_ref [Lvalue ''int'' ''a'']) caller_world
     = Inr (FunctionCallback show_ref [Reference ''int'' ''a''], caller_world)
   \<and> vars caller_world ''a'' = 2
   \<and> call (FunctionCallback show_ref [Reference ''int'' ''a'']) (assign ''a'' 100 caller_world)
     = Inr (FunctionCallback show_ref [Reference ''int'' ''a''],
            fn_body show_ref [100] (assign ''a'' 100 caller_world))
   \<and> vars (fn_body show_ref [100] (assign ''a'' 100 caller_world)) ''sum'' = 100"
  by (simp add: MakeCallback_explicit_Free show_ref_def with_this_def function_call_def
                tuple_types_def tuple_values_def assign_def caller_world_def)

text \<open>
  C5, amended. A handle made by a factory call that leaves the template arguments to
  deduction, from variables \<open>xs\<close> of the caller read in the state \<open>w0\<close> of the call,
  passes, in any later state in which the caller has assigned to a variable, the values
  the variables had in \<open>w0\<close>. A handle made by a call with explicit template arguments
  passes, for an argument whose parameter is of reference type, what the variable holds
  when the handle is invoked, and for every other argument the value of \<open>w0\<close>; when every
  parameter of the callable is of object type, it passes the values of \<open>w0\<close> throughout.
\<close>

theorem captured_by_value_is_a_snapshot:
  "(MakeCallback (FreeShape f (pass_by_value xs w0)) w0 = Inr (h, w1) \<longrightarrow>
      call h (assign x v w) = Inr (h, fn_body f (map (\<lambda>y. vars w0 (snd y)) xs) (assign x v w)))
   \<and> (MakeCallback (BoundShape obj m (pass_by_value xs w0)) w0 = Inr (h, w1) \<longrightarrow>
      call h (assign x v w)
        = with_this h (member_call m obj (copies (pass_by_value xs w0)) (assign x v w)))
   \<and> (MakeCallback_explicit (ExplicitFree E f es) w0 = Inr (h', w1') \<longrightarrow>
      call h' w = Inr (h', fn_body f (passed E es w0 w) w))
   \<and> (MakeCallback_explicit (ExplicitFree E f es) w0 = Inr (h', w1')
        \<and> list_all by_value (fn_params f) \<longrightarrow>
      call h' (assign x v w) = Inr (h', fn_body f (map (expr_value w0) es) (assign x v w)))
   \<and> (MakeCallback_explicit (ExplicitBound E obj m es) w0 = Inr (h', w1') \<longrightarrow>
      call h' w = with_this h' (member_call m obj (bound_elements w0 E es) w)
      \<and> tuple_values w (bound_elements w0 E es) = passed E es w0 w)"
proof (intro conjI impI)
  assume "MakeCallback (FreeShape f (pass_by_value xs w0)) w0 = Inr (h, w1)"
  then show "call h (assign x v w)
               = Inr (h, fn_body f (map (\<lambda>y. vars w0 (snd y)) xs) (assign x v w))"
    by (auto simp: MakeCallback_Free with_this_def function_call_def tuple_types_copies
                   tuple_values_copies tuple_Nil arg_types_Nil arg_values_def pass_by_value_def
                   comp_def
             split: if_splits)
next
  assume "MakeCallback (BoundShape obj m (pass_by_value xs w0)) w0 = Inr (h, w1)"
  then show "call h (assign x v w)
               = with_this h (member_call m obj (copies (pass_by_value xs w0)) (assign x v w))"
    by (rule bound_handle_invokes_member)
next
  have free: "call k u = Inr (k, fn_body f (passed E es w0 u) u)"
    if "MakeCallback_explicit (ExplicitFree E f es) w0 = Inr (k, w1')" for k u
    using that
    by (auto simp: MakeCallback_explicit_Free with_this_def function_call_def tuple_Nil
                   tuple_types_bound_elements tuple_values_bound_elements
             split: if_splits)
  {
    assume "MakeCallback_explicit (ExplicitFree E f es) w0 = Inr (h', w1')"
    then show "call h' w = Inr (h', fn_body f (passed E es w0 w) w)"
      by (rule free)
  next
    assume a: "MakeCallback_explicit (ExplicitFree E f es) w0 = Inr (h', w1')
                 \<and> list_all by_value (fn_params f)"
    then have "fn_params f = pack E es"
      by (auto simp: MakeCallback_explicit_Free split: if_splits)
    with a have "passed E es w0 (assign x v w) = map (expr_value w0) es"
      by (simp add: passed_by_value)
    with free [of h' "assign x v w"] a
    show "call h' (assign x v w) = Inr (h', fn_body f (map (expr_value w0) es) (assign x v w))"
      by simp
  }
next
  assume a: "MakeCallback_explicit (ExplicitBound E obj m es) w0 = Inr (h', w1')"
  show "call h' w = with_this h' (member_call m obj (bound_elements w0 E es) w)"
  proof (cases "E = [] \<and> es = []")
    case True
    with a show ?thesis
      by (auto simp: MakeCallback_explicit_Bound split: if_splits)
  next
    case False
    with a have h': "h' = MemberCallback obj m (bound_elements w0 E es)"
      and "length es = 1" and "bindable_all E es"
      by (auto simp: MakeCallback_explicit_Bound split: if_splits)
    then have "length (bound_elements w0 E es) = 1"
      by (simp add: length_bound_elements)
    then obtain u where "bound_elements w0 E es = [u]"
      by (auto simp: length_Suc_conv)
    with h' show ?thesis
      by (simp add: std_bind_1_def INVOKE_member_def)
  qed
next
  show "tuple_values w (bound_elements w0 E es) = passed E es w0 w"
    by (rule tuple_values_bound_elements)
qed

theorem captured_by_value_is_a_snapshot_witness:
  "call (FunctionCallback add [Copy ''int'' 2, Copy ''int'' 3]) (assign ''a'' 100 caller_world)
     = Inr (FunctionCallback add [Copy ''int'' 2, Copy ''int'' 3],
            fn_body add [2, 3] (assign ''a'' 100 caller_world))
   \<and> call (MemberCallback (Some 0) add_to [Copy ''int'' 2]) (assign ''a'' 100 caller_world)
     = Inr (MemberCallback (Some 0) add_to [Copy ''int'' 2],
            bump 2 0 (assign ''a'' 100 caller_world))
   \<and> call (FunctionCallback add [Copy ''int'' 3, Copy ''int'' 2]) (assign ''a'' 100 caller_world)
     = Inr (FunctionCallback add [Copy ''int'' 3, Copy ''int'' 2],
            fn_body add [3, 2] (assign ''a'' 100 caller_world))
   \<and> call (MemberCallback (Some 0) add_to [Copy ''int'' 3]) (assign ''a'' 100 caller_world)
     = Inr (MemberCallback (Some 0) add_to [Copy ''int'' 3],
            bump 3 0 (assign ''a'' 100 caller_world))
   \<and> vars (assign ''a'' 100 caller_world) ''a'' = 100"
proof -
  let ?xs = "[(''int'', ''a''), (''int'', ''b'')]"
  let ?ys = "[(''int'', ''a'')]"
  let ?es = "[Lvalue ''int'' ''b'', Lvalue ''int'' ''a''] :: (string, int) expr list"
  let ?fs = "[Lvalue ''int'' ''b''] :: (string, int) expr list"
  let ?E = "[ByValue ''int'']"
  let ?w = "assign ''a'' 100 caller_world"
  let ?h1 = "FunctionCallback add [Copy ''int'' 2, Copy ''int'' 3]"
  let ?h2 = "MemberCallback (Some 0) add_to [Copy ''int'' 2]"
  let ?h3 = "FunctionCallback add [Copy ''int'' 3, Copy ''int'' 2]"
  let ?h4 = "MemberCallback (Some 0) add_to [Copy ''int'' 3]"
  have xs: "pass_by_value ?xs caller_world = [(''int'', 2), (''int'', 3)]"
    and ys: "pass_by_value ?ys caller_world = [(''int'', 2)]"
    by (simp_all add: pass_by_value_def caller_world_def)
  have free: "MakeCallback (FreeShape add (pass_by_value ?xs caller_world)) caller_world
                = Inr (?h1, caller_world)"
    by (simp add: xs MakeCallback_Free add_def arg_types_def copies_def)
  have bound: "MakeCallback (BoundShape (Some 0) add_to (pass_by_value ?ys caller_world)) caller_world
                 = Inr (?h2, store_receiver (Some 0) caller_world)"
    by (simp add: ys MakeCallback_Bound add_to_def arg_types_def copies_def)
  have efree: "MakeCallback_explicit (ExplicitFree ?E add ?es) caller_world
                 = Inr (?h3, caller_world)"
    by (simp add: MakeCallback_explicit_Free add_def caller_world_def)
  have ebound: "MakeCallback_explicit (ExplicitBound ?E (Some 0) add_to ?fs) caller_world
                  = Inr (?h4, store_receiver (Some 0) caller_world)"
    by (simp add: MakeCallback_explicit_Bound add_to_def caller_world_def)
  have vals: "map (\<lambda>y. vars caller_world (snd y)) ?xs = [2, 3]"
    "map (expr_value caller_world) ?es = [3, 2]"
    "bound_elements caller_world ?E ?fs = [Copy ''int'' 3]"
    by (simp_all add: caller_world_def)
  have byv: "list_all by_value (fn_params add)"
    by (simp add: add_def)
  have direct: "member_call add_to (Some 0) [Copy ''int'' 2] ?w = Inr (bump 2 0 ?w)"
    "member_call add_to (Some 0) [Copy ''int'' 3] ?w = Inr (bump 3 0 ?w)"
    by (simp_all add: member_call_def add_to_def tuple_types_def tuple_values_def assign_def
                      caller_world_def counter_world_def)
  have late: "vars ?w ''a'' = 100"
    by (simp add: assign_def)
  have c1: "call ?h1 ?w = Inr (?h1, fn_body add [2, 3] ?w)"
    using captured_by_value_is_a_snapshot
            [where f = add and xs = ?xs and ?w0.0 = caller_world and h = ?h1
               and ?w1.0 = caller_world and x = "''a''" and v = 100 and w = caller_world,
             THEN conjunct1]
          free vals
    by (simp del: call.simps)
  have c2: "call ?h2 ?w = Inr (?h2, bump 2 0 ?w)"
    using captured_by_value_is_a_snapshot
            [where xs = ?ys and ?w0.0 = caller_world and h = ?h2
               and ?w1.0 = "store_receiver (Some 0) caller_world" and x = "''a''" and v = 100
               and w = caller_world and obj = "Some 0" and m = add_to,
             THEN conjunct2, THEN conjunct1]
          bound ys direct
    by (simp add: with_this_def copies_def del: call.simps)
  have c3: "call ?h3 ?w = Inr (?h3, fn_body add [3, 2] ?w)"
    using captured_by_value_is_a_snapshot
            [where f = add and ?w0.0 = caller_world and x = "''a''" and v = 100
               and w = caller_world and E = ?E and es = ?es and h' = ?h3
               and w1' = caller_world,
             THEN conjunct2, THEN conjunct2, THEN conjunct2, THEN conjunct1]
          efree byv vals
    by (simp del: call.simps)
  have c4: "call ?h4 ?w = Inr (?h4, bump 3 0 ?w)"
    using captured_by_value_is_a_snapshot
            [where ?w0.0 = caller_world and w = ?w and obj = "Some 0" and m = add_to
               and E = ?E and es = ?fs and h' = ?h4
               and w1' = "store_receiver (Some 0) caller_world",
             THEN conjunct2, THEN conjunct2, THEN conjunct2, THEN conjunct2]
          ebound vals direct
    by (simp add: with_this_def del: call.simps)
  from c1 c2 c3 c4 late show ?thesis
    by (simp del: call.simps)
qed

subsection \<open>What changes a wrapper\<close>

lemma call_returns_this: "call cb w = Inr (cb', w') \<Longrightarrow> cb' = cb"
  by (cases cb) (auto simp: with_this_def split: sum.splits)

lemma call_n_returns_this: "call_n n cb w = Inr (cb', w') \<Longrightarrow> cb' = cb"
proof (induction n arbitrary: cb w)
  case 0
  then show ?case by simp
next
  case (Suc n)
  from Suc.prems obtain cb1 w1 where
    first: "call cb w = Inr (cb1, w1)" and rest: "call_n n cb1 w1 = Inr (cb', w')"
    by (auto simp del: call.simps split: sum.splits)
  from first have "cb1 = cb" by (rule call_returns_this)
  with Suc.IH [OF rest] show ?case by simp
qed

lemma MakeCallback_captures_copies:
  "MakeCallback s w0 = Inr (cb, w1) \<Longrightarrow> \<exists>args. captured cb = copies args"
proof (cases s)
  case (FreeShape fn args)
  assume "MakeCallback s w0 = Inr (cb, w1)"
  with FreeShape have "captured cb = copies args"
    by (auto simp: MakeCallback_Free copies_def split: if_splits)
  then show ?thesis ..
next
  case (BoundShape obj fn args)
  assume "MakeCallback s w0 = Inr (cb, w1)"
  with BoundShape have "captured cb = copies args"
    by (auto simp: MakeCallback_Bound copies_def split: if_splits)
  then show ?thesis ..
next
  case (ReceiverlessShape fn args)
  assume "MakeCallback s w0 = Inr (cb, w1)"
  with ReceiverlessShape show ?thesis
    by (simp add: MakeCallback_Receiverless split: if_splits)
qed

lemma assign_tuple_types:
  "assign_tuple as bs w = (as', w') \<Longrightarrow> tuple_types as' = tuple_types as"
  by (induction as bs w arbitrary: as' w' rule: assign_tuple.induct)
     (auto simp: tuple_types_def split: prod.splits)

text \<open>
  C7, as the claim states it, fails. The handle made from \<^verbatim>\<open>add\<close>, 2 and 3 stores 5
  when invoked. Its class has the implicitly declared public copy assignment, which a
  holder reaches through a pointer cast of the handle to the class of the wrapper;
  assigning to the wrapper from another wrapper of that class, here one of
  \<^verbatim>\<open>multiply\<close>, 10 and 20, replaces the callable and the arguments, and the handle,
  invoked, stores 200: the wrapper has been rebound.
\<close>

theorem copy_assignment_rebinds_wrapper:
  "MakeCallback (FreeShape add [(''int'', 2), (''int'', 3)]) counter_world
     = Inr (FunctionCallback add [Copy ''int'' 2, Copy ''int'' 3], counter_world)
   \<and> call (FunctionCallback add [Copy ''int'' 2, Copy ''int'' 3]) counter_world
     = Inr (FunctionCallback add [Copy ''int'' 2, Copy ''int'' 3], fn_body add [2, 3] counter_world)
   \<and> vars (fn_body add [2, 3] counter_world) ''sum'' = 5
   \<and> copy_assign (FunctionCallback add [Copy ''int'' 2, Copy ''int'' 3])
        (FunctionCallback multiply [Copy ''int'' 10, Copy ''int'' 20]) counter_world
     = Inr (FunctionCallback multiply [Copy ''int'' 10, Copy ''int'' 20], counter_world)
   \<and> call (FunctionCallback multiply [Copy ''int'' 10, Copy ''int'' 20]) counter_world
     = Inr (FunctionCallback multiply [Copy ''int'' 10, Copy ''int'' 20],
            fn_body multiply [10, 20] counter_world)
   \<and> vars (fn_body multiply [10, 20] counter_world) ''sum'' = 200"
  by (simp add: MakeCallback_Free add_def multiply_def arg_types_def copies_def with_this_def
                function_call_def tuple_types_def tuple_values_def)

text \<open>
  C7, amended. Invoking a wrapper of any of the six classes, any number of times in a row,
  returns the wrapper with the callable, the receiver and the captured arguments it had:
  \<^verbatim>\<open>call\<close> assigns to no field, and the classes declare no member but a constructor
  and \<^verbatim>\<open>call\<close>. What does change a wrapper is the implicitly declared copy assignment
  of its class: it is well-formed exactly between wrappers of the same class, and the
  wrapper then has the target of the other wrapper and a tuple of the types it had. For a
  handle the factory made with deduced template arguments, the values of the captured
  arguments are the same in the state before and in the state after the invocations.
\<close>

theorem invocation_never_changes_wrapper:
  "(call_n n cb w = Inr (cb', w') \<longrightarrow>
      cb' = cb \<and> target cb' = target cb \<and> captured cb' = captured cb)
   \<and> (MakeCallback s w0 = Inr (cb, w1) \<and> call_n n cb w = Inr (cb', w') \<longrightarrow>
      tuple_values w' (captured cb') = tuple_values w (captured cb))
   \<and> (copy_assign cb other w = Inr (cb'', w'') \<longrightarrow>
      target cb'' = target other \<and> variant cb'' = variant cb
      \<and> tuple_types (captured cb'') = tuple_types (captured cb))
   \<and> ((\<exists>r. copy_assign cb other w = Inr r) =
      (variant other = variant cb
       \<and> tuple_types (captured other) = tuple_types (captured cb)))"
proof (intro conjI impI)
  assume "call_n n cb w = Inr (cb', w')"
  then have "cb' = cb" by (rule call_n_returns_this)
  then show "cb' = cb" and "target cb' = target cb" and "captured cb' = captured cb"
    by simp_all
next
  assume a: "MakeCallback s w0 = Inr (cb, w1) \<and> call_n n cb w = Inr (cb', w')"
  then have "call_n n cb w = Inr (cb', w')" ..
  then have "cb' = cb" by (rule call_n_returns_this)
  moreover from a obtain args where "captured cb = copies args"
    using MakeCallback_captures_copies by blast
  ultimately show "tuple_values w' (captured cb') = tuple_values w (captured cb)"
    by (simp add: tuple_values_copies)
next
  assume a: "copy_assign cb other w = Inr (cb'', w'')"
  then show "target cb'' = target other"
    by (cases cb; cases other) (auto split: if_splits prod.splits)
  from a show "variant cb'' = variant cb"
    by (cases cb; cases other) (auto split: if_splits prod.splits)
  from a show "tuple_types (captured cb'') = tuple_types (captured cb)"
    by (cases cb; cases other) (auto split: if_splits prod.splits dest: assign_tuple_types)
next
  show "(\<exists>r. copy_assign cb other w = Inr r) =
        (variant other = variant cb \<and> tuple_types (captured other) = tuple_types (captured cb))"
    by (cases cb; cases other) (auto split: prod.splits)
qed

theorem invocation_never_changes_wrapper_witness:
  "call_n 2 (FunctionCallback add [Copy ''int'' 2, Copy ''int'' 3]) counter_world
     = Inr (FunctionCallback add [Copy ''int'' 2, Copy ''int'' 3],
            fn_body add [2, 3] (fn_body add [2, 3] counter_world))
   \<and> tuple_values (fn_body add [2, 3] (fn_body add [2, 3] counter_world))
        [Copy ''int'' 2, Copy ''int'' 3]
     = tuple_values counter_world [Copy ''int'' 2, Copy ''int'' 3]
   \<and> target (FunctionCallback multiply [Copy ''int'' 10, Copy ''int'' 20]) = Inl multiply
   \<and> copy_assign (FunctionCallback add [Copy ''int'' 2, Copy ''int'' 3])
        (FunctionCallback multiply [Copy ''int'' 10, Copy ''int'' 20]) counter_world
     = Inr (FunctionCallback multiply [Copy ''int'' 10, Copy ''int'' 20], counter_world)"
proof -
  let ?s = "FreeShape add [(''int'', 2), (''int'', 3)]"
  let ?a = "FunctionCallback add [Copy ''int'' 2, Copy ''int'' 3]"
  let ?b = "FunctionCallback multiply [Copy ''int'' 10, Copy ''int'' 20]"
  let ?w = "fn_body add [2, 3] (fn_body add [2, 3] counter_world)"
  have built: "MakeCallback ?s counter_world = Inr (?a, counter_world)"
    by (simp add: MakeCallback_Free add_def arg_types_def copies_def)
  have "\<exists>cb'. call_n 2 ?a counter_world = Inr (cb', ?w)"
    by (simp add: numeral_2_eq_2 with_this_def function_call_def tuple_types_def
                  tuple_values_def add_def)
  then obtain cb' where run: "call_n 2 ?a counter_world = Inr (cb', ?w)"
    by blast
  have "\<exists>cb''. copy_assign ?a ?b counter_world = Inr (cb'', counter_world)"
    by (simp add: tuple_types_def)
  then obtain cb'' where assigned: "copy_assign ?a ?b counter_world = Inr (cb'', counter_world)"
    by blast
  from invocation_never_changes_wrapper
         [where n = 2 and cb = ?a and w = counter_world and cb' = cb' and w' = ?w,
          THEN conjunct1]
       run
  have same: "cb' = ?a" by simp
  from invocation_never_changes_wrapper
         [where n = 2 and cb = ?a and w = counter_world and cb' = cb' and w' = ?w
            and s = ?s and ?w0.0 = counter_world and ?w1.0 = counter_world,
          THEN conjunct2, THEN conjunct1]
       built run same
  have vals: "tuple_values ?w [Copy ''int'' 2, Copy ''int'' 3]
                = tuple_values counter_world [Copy ''int'' 2, Copy ''int'' 3]"
    by simp
  from invocation_never_changes_wrapper
         [where cb = ?a and other = ?b and w = counter_world and cb'' = cb''
            and w'' = counter_world, THEN conjunct2, THEN conjunct2, THEN conjunct1]
       assigned
  have "target cb'' = Inl multiply" by simp
  moreover have "copy_assign ?a ?b counter_world = Inr (?b, counter_world)"
    by (simp add: tuple_types_def)
  ultimately show ?thesis using run same vals by (simp del: call.simps)
qed

subsection \<open>Nullary classes and the variadic classes at no arguments\<close>

text \<open>
  C6. The claim asks that each nullary class does what the variadic class of the same shape
  does at an empty argument tuple. For a bound method it does not: the nullary
  \<^verbatim>\<open>MemberCallbackN\<close> made from the counter and \<^verbatim>\<open>increment\<close> adds one to the
  count, while \<^verbatim>\<open>MemberCallback\<close> with an empty pack \<^verbatim>\<open>Args\<close>, whose constructor
  accepts the same receiver and method, has a \<^verbatim>\<open>call\<close> that is ill-formed (the call
  wrapper of \<^verbatim>\<open>std::bind\<close> gets no argument for \<^verbatim>\<open>_1\<close>), so the class cannot be
  instantiated. The free-function classes agree.
\<close>

theorem member_nullary_differs_from_variadic_at_no_arguments:
  "call (MemberCallbackN (Some 0) increment) counter_world
     = Inr (MemberCallbackN (Some 0) increment, bump 1 0 counter_world)
   \<and> new_MemberCallbackN (Some 0) increment = Inr (MemberCallbackN (Some 0) increment)
   \<and> new_MemberCallback (Some 0) increment [] = Inr (MemberCallback (Some 0) increment [])
   \<and> call (MemberCallback (Some 0) increment []) counter_world = Inl IllFormed
   \<and> make_shared (new_MemberCallback (Some 0) increment []) = Inl IllFormed
   \<and> call (FunctionCallback fn []) w = with_this (FunctionCallback fn []) (function_call fn [] w)
   \<and> call (FunctionCallbackN fn) w = with_this (FunctionCallbackN fn) (function_call fn [] w)"
  by (simp add: with_this_def member_call_def std_bind_1_def increment_def tuple_types_def
                new_MemberCallback_def new_MemberCallbackN_def make_shared_def counter_world_def)

subsection \<open>The receiverless overloads\<close>

text \<open>
  No wrapper of the two \<^verbatim>\<open>ConstMemberCallback\<close> classes can be invoked, and the
  receiverless overloads make no handle.
\<close>

lemma ConstMemberCallback_call_ill_formed:
  "call (ConstMemberCallback fn args) w = Inl IllFormed"
  by (simp add: with_this_def std_bind_1_def INVOKE_member_def split: list.splits)

lemma MakeCallback_Receiverless_fails:
  "MakeCallback (ReceiverlessShape fn args) w \<in> {Inl IllFormed, Inl NoMatchingOverload}"
  by (simp add: MakeCallback_Receiverless)

text \<open>
  C8. The claim asks that the wrapper made by the receiverless overload applies the method
  to a null receiver with the captured arguments. \<^verbatim>\<open>MakeCallback(&Counter::add_to, 5)\<close>
  selects the receiverless overload, whose body does not compile: it passes an unqualified
  pointer to member function to a constructor that takes a const-qualified one. A
  \<^verbatim>\<open>ConstMemberCallback\<close> made directly from the const method \<^verbatim>\<open>peek\<close> has an
  ill-formed \<^verbatim>\<open>call\<close> as well, since \<^verbatim>\<open>std::bind\<close> is given the literal
  \<^verbatim>\<open>nullptr\<close> for the object.
\<close>

theorem MakeCallback_receiverless_rejected:
  "resolve (ReceiverlessShape add_to [(''int'', 5)]) = Inr Make_ConstMember
   \<and> new_ConstMemberCallback add_to (copies [(''int'', 5)]) = Inl IllFormed
   \<and> MakeCallback (ReceiverlessShape add_to [(''int'', 5)]) counter_world = Inl IllFormed
   \<and> new_ConstMemberCallback peek (copies [(''int'', 5)])
       = Inr (ConstMemberCallback peek (copies [(''int'', 5)]))
   \<and> call (ConstMemberCallback peek (copies [(''int'', 5)])) counter_world = Inl IllFormed"
  by (simp add: resolve_Receiverless MakeCallback_Receiverless new_ConstMemberCallback_def
                add_to_def peek_def arg_types_def copies_def tuple_types_def with_this_def
                std_bind_1_def INVOKE_member_def)

subsection \<open>Ownership of the receiver\<close>

lemma store_receiver_live:
  "heap w a = Some c \<Longrightarrow>
   store_receiver (Some a) w = w\<lparr>heap := (heap w)(a := Some (c\<lparr>use_count := use_count c + 1\<rparr>))\<rparr>"
  by (simp add: store_receiver_def sp_copy_def sp_release_def)

lemma sp_release_shared:
  "heap w a = Some c \<Longrightarrow> 1 < use_count c \<Longrightarrow>
   heap (sp_release (Some a) w) a = Some (c\<lparr>use_count := use_count c - 1\<rparr>)"
  by (simp add: sp_release_def)

lemma sp_release_last:
  "heap w a = Some c \<Longrightarrow> use_count c \<le> 1 \<Longrightarrow> heap (sp_release (Some a) w) a = None"
  by (simp add: sp_release_def)

lemma release_others:
  "heap w a = Some c \<Longrightarrow> k < use_count c \<Longrightarrow>
   heap ((sp_release (Some a) ^^ k) w) a = Some (c\<lparr>use_count := use_count c - k\<rparr>)"
proof (induction k)
  case 0
  then show ?case by simp
next
  case (Suc k)
  let ?w = "(sp_release (Some a) ^^ k) w"
  let ?c = "c\<lparr>use_count := use_count c - k\<rparr>"
  from Suc have "heap ?w a = Some ?c" by simp
  moreover from Suc.prems have "1 < use_count ?c" by simp
  ultimately have "heap (sp_release (Some a) ?w) a = Some (?c\<lparr>use_count := use_count ?c - 1\<rparr>)"
    by (rule sp_release_shared)
  then show ?case by simp
qed

text \<open>
  C9. A bound-method handle is made from a pointer to a live object with use count \<open>n\<close>,
  so the owners other than the handle hold \<open>n\<close> references between them. The use count
  becomes \<open>n + 1\<close>; after any \<open>k \<le> n\<close> of the other references are released, all of
  them included, the object is still in the heap, unchanged, with a use count of at least
  one, and invoking the handle does not call through a dangling pointer.
\<close>

theorem bound_handle_keeps_receiver_alive:
  assumes "heap w a = Some c"
    and "MakeCallback (BoundShape (Some a) fn args) w = Inr (h, w')"
    and "k \<le> use_count c"
  shows "\<exists>c'. heap ((sp_release (Some a) ^^ k) w') a = Some c'
           \<and> object c' = object c
           \<and> use_count c' = use_count c + 1 - k
           \<and> 1 \<le> use_count c'
           \<and> call h ((sp_release (Some a) ^^ k) w') \<noteq> Inl UndefinedBehaviour"
proof -
  let ?c1 = "c\<lparr>use_count := use_count c + 1\<rparr>"
  let ?w = "(sp_release (Some a) ^^ k) w'"
  from assms(2) have w': "w' = store_receiver (Some a) w"
    and ty: "mf_params fn = arg_types args"
    by (auto simp: MakeCallback_Bound split: if_splits)
  have "heap w' a = Some ?c1"
    using assms(1) w' by (simp add: store_receiver_live)
  moreover have "k < use_count ?c1"
    using assms(3) by simp
  ultimately have live: "heap ?w a = Some (?c1\<lparr>use_count := use_count ?c1 - k\<rparr>)"
    by (rule release_others)
  have "call h ?w = with_this h (member_call fn (Some a) (copies args) ?w)"
    using assms(2) by (rule bound_handle_invokes_member)
  with live ty have "call h ?w \<noteq> Inl UndefinedBehaviour"
    by (simp add: with_this_def member_call_def tuple_types_copies)
  with live assms(3) show ?thesis by simp
qed

theorem bound_handle_keeps_receiver_alive_witness:
  "heap (sp_release (Some 0) (store_receiver (Some 0) counter_world)) 0
     = Some \<lparr>object = 0, use_count = 1\<rparr>
   \<and> call (MemberCallbackN (Some 0) increment)
        (sp_release (Some 0) (store_receiver (Some 0) counter_world)) \<noteq> Inl UndefinedBehaviour
   \<and> heap (sp_release (Some 0) counter_world) 0 = None"
proof -
  have cell: "heap counter_world 0 = Some \<lparr>object = 0, use_count = 1\<rparr>"
    by (simp add: counter_world_def)
  have built: "MakeCallback (BoundShape (Some 0) increment []) counter_world
                 = Inr (MemberCallbackN (Some 0) increment, store_receiver (Some 0) counter_world)"
    by (simp add: MakeCallback_Bound increment_def arg_types_def)
  have gone: "heap (sp_release (Some 0) counter_world) 0 = None"
    using cell by (rule sp_release_last) simp
  from bound_handle_keeps_receiver_alive [OF cell built, of "Suc 0"] gone
  show ?thesis by auto
qed

subsection \<open>The placeholder of std::bind\<close>

text \<open>
  C10. The variadic bound-method wrapper and the variadic receiverless wrapper pass their
  tuple through \<^verbatim>\<open>std::bind(m_fn, x, _1)\<close>. For a \<^verbatim>\<open>MemberCallback\<close> that its
  constructor accepts, \<^verbatim>\<open>call\<close> is well-formed exactly when one argument was captured.
  For a \<^verbatim>\<open>ConstMemberCallback\<close> that its constructor accepts, \<^verbatim>\<open>call\<close> is
  ill-formed whenever the number of captured arguments is not one. (With one captured
  argument it is ill-formed too, for another reason: the bound object is the literal
  \<^verbatim>\<open>nullptr\<close>; see \<open>ConstMemberCallback_call_ill_formed\<close>.)
\<close>

theorem bind_placeholder_needs_one_argument:
  "(new_MemberCallback obj fn args = Inr cb \<longrightarrow>
      (call cb w \<noteq> Inl IllFormed) = (length args = 1))
   \<and> (new_ConstMemberCallback fn' args' = Inr cb' \<longrightarrow> length args' \<noteq> 1 \<longrightarrow>
      call cb' w' = Inl IllFormed)"
  by (cases args; cases "tl args")
     (auto simp: new_MemberCallback_def new_ConstMemberCallback_def call_IllFormed_iff
                 tuple_types_def
           split: if_splits)

theorem bind_placeholder_needs_one_argument_witness:
  "new_MemberCallback (Some 0) add_to [Copy ''int'' 5]
     = Inr (MemberCallback (Some 0) add_to [Copy ''int'' 5])
   \<and> call (MemberCallback (Some 0) add_to [Copy ''int'' 5]) counter_world \<noteq> Inl IllFormed
   \<and> new_MemberCallback (Some 0) add_both [Copy ''int'' 2, Copy ''int'' 3]
     = Inr (MemberCallback (Some 0) add_both [Copy ''int'' 2, Copy ''int'' 3])
   \<and> call (MemberCallback (Some 0) add_both [Copy ''int'' 2, Copy ''int'' 3]) counter_world
     = Inl IllFormed
   \<and> new_ConstMemberCallback read_out [] = Inr (ConstMemberCallback read_out [])
   \<and> call (ConstMemberCallback read_out []) counter_world = Inl IllFormed"
proof -
  have one: "new_MemberCallback (Some 0) add_to [Copy ''int'' 5]
               = Inr (MemberCallback (Some 0) add_to [Copy ''int'' 5])"
    by (simp add: new_MemberCallback_def add_to_def tuple_types_def)
  have two: "new_MemberCallback (Some 0) add_both [Copy ''int'' 2, Copy ''int'' 3]
               = Inr (MemberCallback (Some 0) add_both [Copy ''int'' 2, Copy ''int'' 3])"
    by (simp add: new_MemberCallback_def add_both_def tuple_types_def)
  have none: "new_ConstMemberCallback read_out [] = Inr (ConstMemberCallback read_out [])"
    by (simp add: new_ConstMemberCallback_def read_out_def tuple_types_def)
  from bind_placeholder_needs_one_argument
         [of "Some 0" add_to "[Copy ''int'' 5]" "MemberCallback (Some 0) add_to [Copy ''int'' 5]"
             counter_world read_out "[]" "ConstMemberCallback read_out []" counter_world]
       bind_placeholder_needs_one_argument
         [of "Some 0" add_both "[Copy ''int'' 2, Copy ''int'' 3]"
             "MemberCallback (Some 0) add_both [Copy ''int'' 2, Copy ''int'' 3]"
             counter_world read_out "[]" "ConstMemberCallback read_out []" counter_world]
       one two none
  show ?thesis by simp
qed

end
